theory Spec2Isabelle
  imports Main "HOL-Library.Word"
begin

unbundle bit_operations_syntax

section \<open>Package config\<close>

subsection \<open>Mode\<close>

text \<open>
  \<^verbatim>\<open>type Mode int8\<close> with \<^verbatim>\<open>Noop Mode = iota - 1\<close>, so the five named
  constants are -1, 0, 1, 2, 3 and every other 8-bit value is an unnamed mode.
\<close>

type_synonym Mode = "8 word"

definition Noop :: Mode where "Noop = 0 - 1"
definition Local :: Mode where "Local = 1 - 1"
definition Debug :: Mode where "Debug = 2 - 1"
definition Development :: Mode where "Development = 3 - 1"
definition Production :: Mode where "Production = 4 - 1"

subsection \<open>Config\<close>

text \<open>
  \<^verbatim>\<open>time.Duration\<close> is an \<^verbatim>\<open>int64\<close>; \<^verbatim>\<open>DefaultFields\<close> is a pointer to a map
  (\<open>None\<close> is the nil pointer). A Go map is written as the association list of its
  entries in the order a \<^verbatim>\<open>range\<close> loop visits them (any order, each key once); the
  nil map has no entries.
\<close>

type_synonym Duration = "64 word"
type_synonym StringMap = "(string \<times> string) list"

record Service =
  Name :: string
  Version :: string

record Config =
  Service :: Service
  Mode :: Mode
  SearchIndex :: string
  FlushInterval :: Duration
  Timeout :: Duration
  Port :: string
  DefaultFields :: "StringMap option"
  hostname :: string

text \<open>The zero value of the struct, which Go gives to a field that is not set.\<close>

definition Config_zero :: Config where
  "Config_zero =
     \<lparr>Service = \<lparr>Name = [], Version = []\<rparr>, Mode = 0, SearchIndex = [], FlushInterval = 0,
      Timeout = 0, Port = [], DefaultFields = None, hostname = []\<rparr>"

datatype error =
    AppNotConfigured          \<comment> \<open>\<^verbatim>\<open>errors.New("app not configured")\<close>\<close>
  | InvalidLogMode            \<comment> \<open>\<^verbatim>\<open>errors.New("invalid log mode")\<close>\<close>
  | InvalidHostname string    \<comment> \<open>\<^verbatim>\<open>fmt.Errorf("invalid hostname: %w", err)\<close>\<close>
  | UnknownMode Mode          \<comment> \<open>\<^verbatim>\<open>fmt.Errorf("unknown mode: %v", cfg.Mode)\<close>\<close>
  | ResourceError string      \<comment> \<open>\<^verbatim>\<open>fmt.Errorf("failed to create resource: %w", err)\<close>\<close>
  | ExporterError string      \<comment> \<open>\<^verbatim>\<open>fmt.Errorf("error creating otel exporter: %w", err)\<close>\<close>
  | UnknownMeterMode Mode     \<comment> \<open>\<^verbatim>\<open>fmt.Errorf("error creating otel meter: unknown mode %v", ...)\<close>\<close>
  | ControllerError string    \<comment> \<open>\<^verbatim>\<open>fmt.Errorf("error starting push controller: %w", err)\<close>\<close>
  | SdkError string           \<comment> \<open>an error of a delegate SDK, returned as it is\<close>
  | Panicked string           \<comment> \<open>no returned error: a panic, which ends the constructor\<close>

text \<open>
  \<^verbatim>\<open>os.Hostname()\<close> asks the operating system. Its answer at one call is \<open>Inr name\<close>, or
  \<open>Inl msg\<close> when the call fails; Go then returns the empty name together with the error.
\<close>

type_synonym HostnameAnswer = "string + string"

text \<open>
  \<^verbatim>\<open>func (cfg *Config) Ensure() error\<close> updates the configuration through its pointer
  and returns an error or nil: the model returns the configuration as the call leaves it,
  together with the error.
\<close>

definition Ensure :: "HostnameAnswer \<Rightarrow> Config \<Rightarrow> Config \<times> error option" where
  "Ensure answer c =
     (if Name (Service c) = [] \<or> Version (Service c) = [] then (c, Some AppNotConfigured)
      else if Mode c \<noteq> Noop \<and> Mode c \<noteq> Local \<and> Mode c \<noteq> Debug
              \<and> Mode c \<noteq> Development \<and> Mode c \<noteq> Production
      then (c, Some InvalidLogMode)
      else
        let c1 = (if SearchIndex c = [] then c\<lparr>SearchIndex := Name (Service c)\<rparr> else c);
            c2 = (if FlushInterval c1 \<le>s 0 then c1\<lparr>FlushInterval := 30\<rparr> else c1);
            c3 = (if Timeout c2 \<le>s 0 then c2\<lparr>Timeout := 10\<rparr> else c2);
            c4 = (if Port c3 = [] then c3\<lparr>Port := ''80''\<rparr> else c3)
        in (case answer of
              Inl msg \<Rightarrow> (c4\<lparr>hostname := []\<rparr>, Some (InvalidHostname msg))
            | Inr name \<Rightarrow> (c4\<lparr>hostname := name\<rparr>, None)))"

definition GetHostname :: "Config \<Rightarrow> string" where
  "GetHostname c = hostname c"

definition GetSearchIndex :: "Config \<Rightarrow> string" where
  "GetSearchIndex c = (if Mode c = Development then SearchIndex c else SearchIndex c)"

section \<open>Package util\<close>

subsection \<open>The MD5 digest of the standard library\<close>

text \<open>
  \<^verbatim>\<open>MD5Hash\<close> feeds its bytes to \<^verbatim>\<open>crypto/md5\<close> and prints the 16-byte sum with
  \<^verbatim>\<open>fmt.Sprintf("%x", ...)\<close>. The digest is the algorithm of RFC 1321: the message is
  padded to a multiple of 64 bytes, each block is read as sixteen little-endian 32-bit
  words and run through 64 steps, and the four state words are written little-endian.
\<close>

type_synonym byte = "8 word"
type_synonym uint32 = "32 word"

text \<open>
  The step number \<open>i\<close> runs over \<open>0..<64\<close>, inside both tables; the word index
  \<open>md5_g i\<close> is below 16, inside the sixteen words of a block.
\<close>

definition md5_shift :: "nat list" where
  "md5_shift =
     [7, 12, 17, 22, 7, 12, 17, 22, 7, 12, 17, 22, 7, 12, 17, 22,
      5, 9, 14, 20, 5, 9, 14, 20, 5, 9, 14, 20, 5, 9, 14, 20,
      4, 11, 16, 23, 4, 11, 16, 23, 4, 11, 16, 23, 4, 11, 16, 23,
      6, 10, 15, 21, 6, 10, 15, 21, 6, 10, 15, 21, 6, 10, 15, 21]"

definition md5_table :: "uint32 list" where
  "md5_table =
     [0xd76aa478, 0xe8c7b756, 0x242070db, 0xc1bdceee,
      0xf57c0faf, 0x4787c62a, 0xa8304613, 0xfd469501,
      0x698098d8, 0x8b44f7af, 0xffff5bb1, 0x895cd7be,
      0x6b901122, 0xfd987193, 0xa679438e, 0x49b40821,
      0xf61e2562, 0xc040b340, 0x265e5a51, 0xe9b6c7aa,
      0xd62f105d, 0x02441453, 0xd8a1e681, 0xe7d3fbc8,
      0x21e1cde6, 0xc33707d6, 0xf4d50d87, 0x455a14ed,
      0xa9e3e905, 0xfcefa3f8, 0x676f02d9, 0x8d2a4c8a,
      0xfffa3942, 0x8771f681, 0x6d9d6122, 0xfde5380c,
      0xa4beea44, 0x4bdecfa9, 0xf6bb4b60, 0xbebfbc70,
      0x289b7ec6, 0xeaa127fa, 0xd4ef3085, 0x04881d05,
      0xd9d4d039, 0xe6db99e5, 0x1fa27cf8, 0xc4ac5665,
      0xf4292244, 0x432aff97, 0xab9423a7, 0xfc93a039,
      0x655b59c3, 0x8f0ccc92, 0xffeff47d, 0x85845dd1,
      0x6fa87e4f, 0xfe2ce6e0, 0xa3014314, 0x4e0811a1,
      0xf7537e82, 0xbd3af235, 0x2ad7d2bb, 0xeb86d391]"

definition md5_F :: "nat \<Rightarrow> uint32 \<Rightarrow> uint32 \<Rightarrow> uint32 \<Rightarrow> uint32" where
  "md5_F i b c d =
     (if i < 16 then (b AND c) OR (NOT b AND d)
      else if i < 32 then (d AND b) OR (NOT d AND c)
      else if i < 48 then b XOR c XOR d
      else c XOR (b OR NOT d))"

definition md5_g :: "nat \<Rightarrow> nat" where
  "md5_g i =
     (if i < 16 then i
      else if i < 32 then (5 * i + 1) mod 16
      else if i < 48 then (3 * i + 5) mod 16
      else (7 * i) mod 16)"

type_synonym md5_state = "uint32 \<times> uint32 \<times> uint32 \<times> uint32"

fun md5_step :: "uint32 list \<Rightarrow> md5_state \<Rightarrow> nat \<Rightarrow> md5_state" where
  "md5_step M (a, b, c, d) i =
     (let f = md5_F i b c d + a + md5_table ! i + M ! md5_g i
      in (d, b + word_rotl (md5_shift ! i) f, b, c))"

fun md5_block :: "md5_state \<Rightarrow> uint32 list \<Rightarrow> md5_state" where
  "md5_block (a0, b0, c0, d0) M =
     (case foldl (md5_step M) (a0, b0, c0, d0) [0..<64] of
        (a, b, c, d) \<Rightarrow> (a0 + a, b0 + b, c0 + c, d0 + d))"

definition le_bytes32 :: "uint32 \<Rightarrow> byte list" where
  "le_bytes32 w = [ucast w, ucast (drop_bit 8 w), ucast (drop_bit 16 w), ucast (drop_bit 24 w)]"

definition le_bytes64 :: "64 word \<Rightarrow> byte list" where
  "le_bytes64 w = map (\<lambda>k. ucast (drop_bit (8 * k) w)) [0..<8]"

fun le_words32 :: "byte list \<Rightarrow> uint32 list" where
  "le_words32 (b0 # b1 # b2 # b3 # bs) =
     (ucast b0 OR push_bit 8 (ucast b1) OR push_bit 16 (ucast b2) OR push_bit 24 (ucast b3))
       # le_words32 bs"
| "le_words32 bs = []"

definition md5_pad :: "byte list \<Rightarrow> byte list" where
  "md5_pad bs =
     bs @ [0x80] @ replicate ((119 - length bs mod 64) mod 64) 0
        @ le_bytes64 (word_of_nat (8 * length bs))"

fun md5_blocks :: "nat \<Rightarrow> md5_state \<Rightarrow> byte list \<Rightarrow> md5_state" where
  "md5_blocks 0 st bs = st"
| "md5_blocks (Suc n) st bs = md5_blocks n (md5_block st (le_words32 (take 64 bs))) (drop 64 bs)"

definition md5_init :: md5_state where
  "md5_init = (0x67452301, 0xefcdab89, 0x98badcfe, 0x10325476)"

definition md5_Sum :: "byte list \<Rightarrow> byte list" where
  "md5_Sum bs =
     (let p = md5_pad bs in
      case md5_blocks (length p div 64) md5_init p of
        (a, b, c, d) \<Rightarrow> le_bytes32 a @ le_bytes32 b @ le_bytes32 c @ le_bytes32 d)"

definition hex_digit :: "nat \<Rightarrow> char" where
  "hex_digit n = ''0123456789abcdef'' ! n"

definition hex_byte :: "byte \<Rightarrow> string" where
  "hex_byte b = [hex_digit (unat b div 16), hex_digit (unat b mod 16)]"

definition Sprintf_x :: "byte list \<Rightarrow> string" where
  "Sprintf_x bs = concat (map hex_byte bs)"

definition bytes_of :: "string \<Rightarrow> byte list" where
  "bytes_of s = map of_char s"

definition MD5Hash :: "byte list \<Rightarrow> string" where
  "MD5Hash data = Sprintf_x (md5_Sum data)"

section \<open>The world outside the library\<close>

text \<open>
  A zap field is a key with a string, a time or an error; \<^verbatim>\<open>zap.Error(err)\<close> uses the
  key \<^verbatim>\<open>"error"\<close>. \<^verbatim>\<open>time.Now()\<close> is read by the caller of the model and passed
  in, as is the trace \<^verbatim>\<open>debug.Stack()\<close> returns.
\<close>

type_synonym Time = int

datatype FieldValue = StringValue string | TimeValue Time | ErrorValue string

type_synonym Field = "string \<times> FieldValue"

definition zap_String :: "string \<Rightarrow> string \<Rightarrow> Field" where
  "zap_String key val = (key, StringValue val)"

definition zap_Time :: "string \<Rightarrow> Time \<Rightarrow> Field" where
  "zap_Time key t = (key, TimeValue t)"

definition zap_Error :: "string \<Rightarrow> Field" where
  "zap_Error err = (''error'', ErrorValue err)"

text \<open>The zap levels with their numbers; a core writes an entry whose level is at least its own.\<close>

datatype Level = DebugLevel | InfoLevel | WarnLevel | ErrorLevel | FatalLevel

fun Level_int :: "Level \<Rightarrow> int" where
  "Level_int DebugLevel = - 1"
| "Level_int InfoLevel = 0"
| "Level_int WarnLevel = 1"
| "Level_int ErrorLevel = 2"
| "Level_int FatalLevel = 5"

text \<open>
  An \<^verbatim>\<open>*os.File\<close> is a file descriptor with a name: \<^verbatim>\<open>os.NewFile(fd, name)\<close> wraps
  the descriptor it is given and opens nothing; the name is a label. The standard streams
  are made the same way from the descriptors 0, 1 and 2.
\<close>

record File =
  fd :: nat
  fname :: string

definition os_NewFile :: "nat \<Rightarrow> string \<Rightarrow> File" where
  "os_NewFile n s = \<lparr>fd = n, fname = s\<rparr>"

definition os_DevNull :: string where "os_DevNull = ''/dev/null''"
definition os_Stdin :: File where "os_Stdin = os_NewFile 0 ''/dev/stdin''"
definition os_Stdout :: File where "os_Stdout = os_NewFile 1 ''/dev/stdout''"
definition os_Stderr :: File where "os_Stderr = os_NewFile 2 ''/dev/stderr''"

record Core =
  out :: File
  enab :: Level

record LogRecord =
  rec_level :: Level
  rec_message :: string
  rec_fields :: "Field list"

datatype Instrument = Histogram | Gauge | Counter

datatype Number = Float64 "64 word" | Int64 "64 word"

record MetricPoint =
  instrument :: Instrument
  metric_name :: string
  metric_value :: Number
  attrs :: StringMap

datatype Event = LoggerClose | TracerClose

text \<open>
  What the program has done to the outside: the records written on each file descriptor,
  the points handed to the metrics SDK, and the delegates closed so far, in order.
\<close>

record World =
  written :: "nat \<Rightarrow> LogRecord list"
  recorded :: "MetricPoint list"
  events :: "Event list"

definition World_init :: World where
  "World_init = \<lparr>written = (\<lambda>n. []), recorded = [], events = []\<rparr>"

text \<open>
  The answers of the operating system and of the delegate SDKs that the library only
  passes on: an error message, or none.
\<close>

record Sdk =
  os_Hostname :: HostnameAnswer
  os_Getenv_STACK :: string
  resource_New :: "string option"
  stdoutmetric_New :: "string option"
  otlpmetric_New :: "string option"
  ctrl_Start :: "string option"
  new_instrument :: "string \<Rightarrow> string option"
  RegisterCallback :: "string option"
  logger_Sync :: "string option"
  tp_Shutdown :: "string option"

text \<open>
  The zap logger checks the level against the core and, when enabled, writes the encoded
  entry to the core's file, that is to its descriptor.
\<close>

definition Core_Enabled :: "Core \<Rightarrow> Level \<Rightarrow> bool" where
  "Core_Enabled core lvl = (Level_int (enab core) \<le> Level_int lvl)"

definition zap_log :: "Core \<Rightarrow> LogRecord \<Rightarrow> World \<Rightarrow> World" where
  "zap_log core r w =
     (if Core_Enabled core (rec_level r)
      then w\<lparr>written := (written w)(fd (out core) := written w (fd (out core)) @ [r])\<rparr>
      else w)"

section \<open>Package log\<close>

record Entry =
  Component :: string
  Operation :: string
  Message :: string
  Err :: "string option"
  Fields :: StringMap
  stacktrace :: string
  stacktraceHash :: "string option"

record OTLPLogger =
  logger :: Core
  log_cfg :: Config

definition NewOTLPLogger :: "Config \<Rightarrow> error + OTLPLogger" where
  "NewOTLPLogger c =
     (let level = (if Mode c \<noteq> Production then DebugLevel else InfoLevel) in
      if Mode c = Noop
      then Inr \<lparr>logger = \<lparr>out = os_NewFile 0 os_DevNull, enab = level\<rparr>, log_cfg = c\<rparr>
      else if Mode c = Local
      then Inr \<lparr>logger = \<lparr>out = os_Stdout, enab = level\<rparr>, log_cfg = c\<rparr>
      else if Mode c = Debug \<or> Mode c = Development \<or> Mode c = Production
      then Inr \<lparr>logger = \<lparr>out = os_Stdout, enab = level\<rparr>, log_cfg = c\<rparr>
      else Inl (UnknownMode (Mode c)))"

definition generateOTLPFields :: "OTLPLogger \<Rightarrow> Time \<Rightarrow> Entry \<Rightarrow> Field list" where
  "generateOTLPFields log now logEntry =
     (let fields0 =
            [zap_String ''service.name'' (Name (Service (log_cfg log))),
             zap_String ''service.version'' (Version (Service (log_cfg log))),
             zap_String ''host.name'' (GetHostname (log_cfg log)),
             zap_String ''component'' (Component logEntry),
             zap_String ''operation'' (Operation logEntry),
             zap_Time ''timestamp'' now];
          fields1 = (case Err logEntry of
                       None \<Rightarrow> fields0
                     | Some err \<Rightarrow> fields0 @ [zap_Error err]);
          fields2 = (if stacktrace logEntry \<noteq> []
                     then (let stacktraceHash = MD5Hash (bytes_of (stacktrace logEntry))
                           in (fields1 @ [zap_String ''stacktrace.hash'' stacktraceHash])
                                @ [zap_String ''stacktrace'' (stacktrace logEntry)])
                     else fields1);
          fields3 = fields2 @ map (\<lambda>(key, val). zap_String key val) (Fields logEntry);
          fields4 = (case DefaultFields (log_cfg log) of
                       None \<Rightarrow> fields3
                     | Some m \<Rightarrow> fields3 @ map (\<lambda>(key, val). zap_String key val) m)
      in fields4)"

text \<open>
  \<^verbatim>\<open>logWithLevel\<close> builds the fields at once and starts a goroutine that calls the zap
  logger at the level with the message and the fields: the result is that call. The
  process exit that zap adds after a Fatal entry is not part of the model.
\<close>

definition logWithLevel :: "OTLPLogger \<Rightarrow> Time \<Rightarrow> Entry \<Rightarrow> Level \<Rightarrow> LogRecord" where
  "logWithLevel log now logEntry level =
     \<lparr>rec_level = level, rec_message = Message logEntry,
      rec_fields = generateOTLPFields log now logEntry\<rparr>"

text \<open>
  The five methods take the entry by pointer; Warn, Error and Fatal store the trace of
  \<^verbatim>\<open>debug.Stack()\<close> in it first. Each returns the entry as it leaves it and the call
  handed to zap.
\<close>

definition OTLPLogger_Debug :: "OTLPLogger \<Rightarrow> Time \<Rightarrow> Entry \<Rightarrow> Entry \<times> LogRecord" where
  "OTLPLogger_Debug log now logEntry = (logEntry, logWithLevel log now logEntry DebugLevel)"

definition OTLPLogger_Info :: "OTLPLogger \<Rightarrow> Time \<Rightarrow> Entry \<Rightarrow> Entry \<times> LogRecord" where
  "OTLPLogger_Info log now logEntry = (logEntry, logWithLevel log now logEntry InfoLevel)"

definition OTLPLogger_Warn :: "OTLPLogger \<Rightarrow> Time \<Rightarrow> string \<Rightarrow> Entry \<Rightarrow> Entry \<times> LogRecord" where
  "OTLPLogger_Warn log now stack logEntry =
     (let e = logEntry\<lparr>stacktrace := stack\<rparr> in (e, logWithLevel log now e WarnLevel))"

definition OTLPLogger_Error :: "OTLPLogger \<Rightarrow> Time \<Rightarrow> string \<Rightarrow> Entry \<Rightarrow> Entry \<times> LogRecord" where
  "OTLPLogger_Error log now stack logEntry =
     (let e = logEntry\<lparr>stacktrace := stack\<rparr> in (e, logWithLevel log now e ErrorLevel))"

definition OTLPLogger_Fatal :: "OTLPLogger \<Rightarrow> Time \<Rightarrow> string \<Rightarrow> Entry \<Rightarrow> Entry \<times> LogRecord" where
  "OTLPLogger_Fatal log now stack logEntry =
     (let e = logEntry\<lparr>stacktrace := stack\<rparr> in (e, logWithLevel log now e FatalLevel))"

definition OTLPLogger_Close :: "Sdk \<Rightarrow> OTLPLogger \<Rightarrow> World \<Rightarrow> World \<times> error option" where
  "OTLPLogger_Close sdk log w =
     (w\<lparr>events := events w @ [LoggerClose]\<rparr>, map_option SdkError (logger_Sync sdk))"

section \<open>Package trace\<close>

text \<open>
  \<^verbatim>\<open>NewTracer\<close> builds the provider over the \<^verbatim>\<open>noopExporter\<close> in every mode, with the
  three resource attributes; \<^verbatim>\<open>tp\<close> is a pointer, \<open>None\<close> when nil.
\<close>

datatype SpanExporter = noopExporter

record TracerProvider =
  batcher :: SpanExporter
  tp_resource :: StringMap

record OtelTracer =
  tp :: "TracerProvider option"
  tracer_cfg :: Config

definition NewTracer :: "Sdk \<Rightarrow> Config \<Rightarrow> error + OtelTracer" where
  "NewTracer sdk c =
     (case resource_New sdk of
        Some msg \<Rightarrow> Inl (ResourceError msg)
      | None \<Rightarrow>
          Inr \<lparr>tp = Some \<lparr>batcher = noopExporter,
                          tp_resource = [(''service.name'', Name (Service c)),
                                         (''service.version'', Version (Service c)),
                                         (''host.name'', GetHostname c)]\<rparr>,
               tracer_cfg = c\<rparr>)"

definition OtelTracer_Close :: "Sdk \<Rightarrow> OtelTracer \<Rightarrow> World \<Rightarrow> World \<times> error option" where
  "OtelTracer_Close sdk t w =
     (let w' = w\<lparr>events := events w @ [TracerClose]\<rparr> in
      if tp t \<noteq> None then (w', map_option SdkError (tp_Shutdown sdk)) else (w', None))"

section \<open>Package metrics\<close>

definition prodEndpoint :: string where "prodEndpoint = ''otel-collector.garden.internal''"
definition devEndpoint :: string where "devEndpoint = ''localhost:4317''"
definition debugEndpoint :: string where "debugEndpoint = ''localhost:4317''"

definition endpoint :: "Mode \<Rightarrow> string \<Rightarrow> string" where
  "endpoint mode port =
     (if mode = Debug then debugEndpoint
      else if mode = Development then devEndpoint
      else if mode = Production then prodEndpoint @ '':'' @ port
      else [])"

record Client =
  WithInsecure :: bool
  WithEndpoint :: string
  WithTimeout :: Duration

definition newClient :: "Config \<Rightarrow> Client" where
  "newClient c =
     \<lparr>WithInsecure = True, WithEndpoint = endpoint (Mode c) (Port c), WithTimeout = Timeout c\<rparr>"

datatype Exporter = StdoutPrettyPrint | OTLP Client

text \<open>
  The meter is the no-op meter of the API, or the global meter of a controller that
  exports through the exporter at the collect period. (Installing the controller as the
  process-wide meter provider, like the tracer provider above, changes nothing that is
  modelled here.) \<^verbatim>\<open>ctrl.Start\<close> returns its error first and then starts a ticker
  at the collect period \<^verbatim>\<open>cfg.FlushInterval\<close>; the ticker of the standard library
  panics on a period that is not positive, so the constructor panics there instead of
  returning. \<^verbatim>\<open>Ensure\<close> makes the interval positive, so \<^verbatim>\<open>NewObservability\<close>
  never reaches the panic.
\<close>

datatype Meter = NoopMeter | GlobalMeter Exporter Duration

record OtelMeter =
  meter :: Meter
  meter_cfg :: Config

definition NewOtelMeter :: "Sdk \<Rightarrow> Config \<Rightarrow> error + OtelMeter" where
  "NewOtelMeter sdk c =
     (if Mode c = Noop then Inr \<lparr>meter = NoopMeter, meter_cfg = Config_zero\<rparr>
      else
        (case (if Mode c = Local
               then (case stdoutmetric_New sdk of
                       Some msg \<Rightarrow> Inl (ExporterError msg)
                     | None \<Rightarrow> Inr StdoutPrettyPrint)
               else if Mode c = Debug \<or> Mode c = Development \<or> Mode c = Production
               then (case otlpmetric_New sdk of
                       Some msg \<Rightarrow> Inl (ExporterError msg)
                     | None \<Rightarrow> Inr (OTLP (newClient c)))
               else Inl (UnknownMeterMode (Mode c))) of
           Inl err \<Rightarrow> Inl err
         | Inr exporter \<Rightarrow>
             (case ctrl_Start sdk of
                Some msg \<Rightarrow> Inl (ControllerError msg)
              | None \<Rightarrow>
                  if FlushInterval c \<le>s 0
                  then Inl (Panicked ''non-positive interval for NewTicker'')
                  else Inr \<lparr>meter = GlobalMeter exporter (FlushInterval c), meter_cfg = c\<rparr>)))"

definition getStackName :: "Sdk \<Rightarrow> string" where
  "getStackName sdk = (let stackName = os_Getenv_STACK sdk in if stackName = [] then ''-'' else stackName)"

definition ToAttrs :: "StringMap \<Rightarrow> StringMap" where
  "ToAttrs flds = map (\<lambda>(key, val). (key, val)) flds"

definition defaultAttrs :: "Sdk \<Rightarrow> OtelMeter \<Rightarrow> StringMap" where
  "defaultAttrs sdk m =
     (let defaultAttr =
            [(''garden.app.name'', Name (Service (meter_cfg m))),
             (''garden.app.version'', Version (Service (meter_cfg m))),
             (''garden.stack'', getStackName sdk)]
      in case DefaultFields (meter_cfg m) of
           None \<Rightarrow> defaultAttr
         | Some fs \<Rightarrow> defaultAttr @ map (\<lambda>(fieldName, val). (fieldName, val)) fs)"

text \<open>
  An instrument of the no-op meter is made without error and drops what it is given. On
  the SDK's meter making the instrument can fail, and so can registering the callback of
  a gauge; otherwise the point reaches the SDK.
\<close>

definition DefaultHistogram ::
  "Sdk \<Rightarrow> OtelMeter \<Rightarrow> string \<Rightarrow> 64 word \<Rightarrow> StringMap \<Rightarrow> World \<Rightarrow> World \<times> error option" where
  "DefaultHistogram sdk m metricName val flds w =
     (case meter m of
        NoopMeter \<Rightarrow> (w, None)
      | GlobalMeter exporter period \<Rightarrow>
          (case new_instrument sdk metricName of
             Some msg \<Rightarrow> (w, Some (SdkError msg))
           | None \<Rightarrow>
               (w\<lparr>recorded := recorded w @
                     [\<lparr>instrument = Histogram, metric_name = metricName,
                       metric_value = Float64 val,
                       attrs = ToAttrs flds @ defaultAttrs sdk m\<rparr>]\<rparr>, None)))"

definition DefaultGauge ::
  "Sdk \<Rightarrow> OtelMeter \<Rightarrow> string \<Rightarrow> 64 word \<Rightarrow> StringMap \<Rightarrow> World \<Rightarrow> World \<times> error option" where
  "DefaultGauge sdk m metricName val flds w =
     (case meter m of
        NoopMeter \<Rightarrow> (w, None)
      | GlobalMeter exporter period \<Rightarrow>
          (case new_instrument sdk metricName of
             Some msg \<Rightarrow> (w, Some (SdkError msg))
           | None \<Rightarrow>
               (case RegisterCallback sdk of
                  Some msg \<Rightarrow> (w, Some (SdkError msg))
                | None \<Rightarrow>
                    (w\<lparr>recorded := recorded w @
                          [\<lparr>instrument = Gauge, metric_name = metricName,
                            metric_value = Int64 val,
                            attrs = ToAttrs flds @ defaultAttrs sdk m\<rparr>]\<rparr>, None))))"

definition DefaultCounter ::
  "Sdk \<Rightarrow> OtelMeter \<Rightarrow> string \<Rightarrow> 64 word \<Rightarrow> StringMap \<Rightarrow> World \<Rightarrow> World \<times> error option" where
  "DefaultCounter sdk m metricName val flds w =
     (case meter m of
        NoopMeter \<Rightarrow> (w, None)
      | GlobalMeter exporter period \<Rightarrow>
          (case new_instrument sdk metricName of
             Some msg \<Rightarrow> (w, Some (SdkError msg))
           | None \<Rightarrow>
               (w\<lparr>recorded := recorded w @
                     [\<lparr>instrument = Counter, metric_name = metricName,
                       metric_value = Int64 val,
                       attrs = ToAttrs flds @ defaultAttrs sdk m\<rparr>]\<rparr>, None)))"

section \<open>Package observability: the facade\<close>

record ObservabilityClient =
  obs_logger :: OTLPLogger
  obs_tracer :: OtelTracer
  obs_meter :: OtelMeter

definition NewObservability :: "Sdk \<Rightarrow> Config \<Rightarrow> error + ObservabilityClient" where
  "NewObservability sdk c0 =
     (case Ensure (os_Hostname sdk) c0 of
        (c, Some err) \<Rightarrow> Inl err
      | (c, None) \<Rightarrow>
          (case NewOTLPLogger c of
             Inl err \<Rightarrow> Inl err
           | Inr l \<Rightarrow>
               (case NewTracer sdk c of
                  Inl err \<Rightarrow> Inl err
                | Inr t \<Rightarrow>
                    (case NewOtelMeter sdk c of
                       Inl err \<Rightarrow> Inl err
                     | Inr m \<Rightarrow> Inr \<lparr>obs_logger = l, obs_tracer = t, obs_meter = m\<rparr>))))"

text \<open>
  Each logging method of the facade makes a new entry (its unexported fields at their
  zero values) and hands it to the logger; the result is the call that reaches zap.
\<close>

definition new_Entry :: "string \<Rightarrow> string \<Rightarrow> string \<Rightarrow> string option \<Rightarrow> StringMap \<Rightarrow> Entry" where
  "new_Entry component operation message err flds =
     \<lparr>Component = component, Operation = operation, Message = message, Err = err,
      Fields = flds, stacktrace = [], stacktraceHash = None\<rparr>"

definition client_Debug ::
  "ObservabilityClient \<Rightarrow> Time \<Rightarrow> string \<Rightarrow> string \<Rightarrow> string \<Rightarrow> StringMap \<Rightarrow> LogRecord" where
  "client_Debug obs now component operation message flds =
     snd (OTLPLogger_Debug (obs_logger obs) now (new_Entry component operation message None flds))"

definition client_Info ::
  "ObservabilityClient \<Rightarrow> Time \<Rightarrow> string \<Rightarrow> string \<Rightarrow> string \<Rightarrow> StringMap \<Rightarrow> LogRecord" where
  "client_Info obs now component operation message flds =
     snd (OTLPLogger_Info (obs_logger obs) now (new_Entry component operation message None flds))"

definition client_Warn ::
  "ObservabilityClient \<Rightarrow> Time \<Rightarrow> string \<Rightarrow> string \<Rightarrow> string \<Rightarrow> string \<Rightarrow> string option
     \<Rightarrow> StringMap \<Rightarrow> LogRecord" where
  "client_Warn obs now stack component operation message err flds =
     snd (OTLPLogger_Warn (obs_logger obs) now stack
            (new_Entry component operation message err flds))"

definition client_Error ::
  "ObservabilityClient \<Rightarrow> Time \<Rightarrow> string \<Rightarrow> string \<Rightarrow> string \<Rightarrow> string \<Rightarrow> string option
     \<Rightarrow> StringMap \<Rightarrow> LogRecord" where
  "client_Error obs now stack component operation message err flds =
     snd (OTLPLogger_Error (obs_logger obs) now stack
            (new_Entry component operation message err flds))"

definition client_Fatal ::
  "ObservabilityClient \<Rightarrow> Time \<Rightarrow> string \<Rightarrow> string \<Rightarrow> string \<Rightarrow> string \<Rightarrow> string option
     \<Rightarrow> StringMap \<Rightarrow> LogRecord" where
  "client_Fatal obs now stack component operation message err flds =
     snd (OTLPLogger_Fatal (obs_logger obs) now stack
            (new_Entry component operation message err flds))"

definition SystemMetricHistogram ::
  "Sdk \<Rightarrow> ObservabilityClient \<Rightarrow> string \<Rightarrow> 64 word \<Rightarrow> StringMap \<Rightarrow> World \<Rightarrow> World \<times> error option" where
  "SystemMetricHistogram sdk obs metricName val flds w =
     DefaultHistogram sdk (obs_meter obs) metricName val flds w"

definition SystemMetricCounter ::
  "Sdk \<Rightarrow> ObservabilityClient \<Rightarrow> string \<Rightarrow> 64 word \<Rightarrow> StringMap \<Rightarrow> World \<Rightarrow> World \<times> error option" where
  "SystemMetricCounter sdk obs metricName val flds w =
     DefaultCounter sdk (obs_meter obs) metricName val flds w"

definition SystemMetricGauge ::
  "Sdk \<Rightarrow> ObservabilityClient \<Rightarrow> string \<Rightarrow> 64 word \<Rightarrow> StringMap \<Rightarrow> World \<Rightarrow> World \<times> error option" where
  "SystemMetricGauge sdk obs metricName val flds w =
     DefaultGauge sdk (obs_meter obs) metricName val flds w"

definition ObservabilityClient_Close ::
  "Sdk \<Rightarrow> ObservabilityClient \<Rightarrow> World \<Rightarrow> World \<times> error option" where
  "ObservabilityClient_Close sdk obs w =
     (case OTLPLogger_Close sdk (obs_logger obs) w of
        (w1, Some err) \<Rightarrow> (w1, Some err)
      | (w1, None) \<Rightarrow>
          (case OtelTracer_Close sdk (obs_tracer obs) w1 of
             (w2, Some err) \<Rightarrow> (w2, Some err)
           | (w2, None) \<Rightarrow> (w2, None)))"

subsection \<open>Reading a field list with repeated keys\<close>

text \<open>
  \<^verbatim>\<open>generateOTLPFields\<close> appends and never removes, so a key can occur more than once
  in its result and the encoder writes every occurrence in order. \<open>first_value\<close> is what
  a reader sees that keeps the first occurrence of a key, \<open>last_value\<close> what one sees
  that lets a later occurrence replace an earlier one.
\<close>

definition first_value :: "string \<Rightarrow> Field list \<Rightarrow> FieldValue option" where
  "first_value key fs = map_of fs key"

definition last_value :: "string \<Rightarrow> Field list \<Rightarrow> FieldValue option" where
  "last_value key fs = map_of (rev fs) key"

definition is_hex :: "char \<Rightarrow> bool" where
  "is_hex ch = (ch \<in> set ''0123456789abcdef'')"

text \<open>The configurations of the two example programs, and the operating system's answers used with them.\<close>

definition simple_cfg :: Config where
  "simple_cfg =
     Config_zero\<lparr>Service := \<lparr>Name = ''web-app'', Version = ''0.41.7''\<rparr>, Mode := Local,
                 SearchIndex := ''observability-commons-example'',
                 FlushInterval := 5 * 1000000000, Timeout := 10 * 1000000000\<rparr>"

definition collector_cfg :: Config where
  "collector_cfg =
     Config_zero\<lparr>Service := \<lparr>Name = ''collector-demo'', Version = ''1.0.0''\<rparr>, Mode := Debug,
                 SearchIndex := ''observability-collector-demo'',
                 FlushInterval := 2 * 1000000000, Timeout := 10 * 1000000000\<rparr>"

definition quiet_sdk :: Sdk where
  "quiet_sdk =
     \<lparr>os_Hostname = Inr ''host-a'', os_Getenv_STACK = [], resource_New = None,
      stdoutmetric_New = None, otlpmetric_New = None, ctrl_Start = None,
      new_instrument = (\<lambda>n. None), RegisterCallback = None, logger_Sync = None,
      tp_Shutdown = None\<rparr>"

text \<open>
  The defaults of \<^verbatim>\<open>Ensure\<close> applied to the four optional fields, each only where the
  field is unset: the configuration a valid call leaves, apart from the hostname.
\<close>

definition filled :: "Config \<Rightarrow> Config" where
  "filled c =
     c\<lparr>SearchIndex := (if SearchIndex c = [] then Name (Service c) else SearchIndex c),
       FlushInterval := (if FlushInterval c \<le>s 0 then 30 else FlushInterval c),
       Timeout := (if Timeout c \<le>s 0 then 10 else Timeout c),
       Port := (if Port c = [] then ''80'' else Port c)\<rparr>"

subsection \<open>The parts of a generated field list\<close>

text \<open>
  Names for the pieces \<^verbatim>\<open>generateOTLPFields\<close> appends, in its order: the six fixed
  fields, the string fields of a map (the call's fields, then the default fields of the
  configuration when the pointer is set).
\<close>

definition fixed_fields :: "Config \<Rightarrow> Time \<Rightarrow> string \<Rightarrow> string \<Rightarrow> Field list" where
  "fixed_fields c now component operation =
     [zap_String ''service.name'' (Name (Service c)),
      zap_String ''service.version'' (Version (Service c)),
      zap_String ''host.name'' (GetHostname c),
      zap_String ''component'' component,
      zap_String ''operation'' operation,
      zap_Time ''timestamp'' now]"

definition string_fields :: "StringMap \<Rightarrow> Field list" where
  "string_fields m = map (\<lambda>(key, val). zap_String key val) m"

definition default_fields :: "Config \<Rightarrow> Field list" where
  "default_fields c = (case DefaultFields c of None \<Rightarrow> [] | Some m \<Rightarrow> string_fields m)"

definition default_keys :: "Config \<Rightarrow> string set" where
  "default_keys c = (case DefaultFields c of None \<Rightarrow> {} | Some m \<Rightarrow> fst ` set m)"

subsection \<open>The first example program, resolved and constructed\<close>

definition simple_resolved :: Config where
  "simple_resolved = simple_cfg\<lparr>Port := ''80'', hostname := ''host-a''\<rparr>"

definition simple_logger :: OTLPLogger where
  "simple_logger = \<lparr>logger = \<lparr>out = os_Stdout, enab = DebugLevel\<rparr>, log_cfg = simple_resolved\<rparr>"

definition simple_client :: ObservabilityClient where
  "simple_client =
     \<lparr>obs_logger = simple_logger,
      obs_tracer =
        \<lparr>tp = Some \<lparr>batcher = noopExporter,
                     tp_resource = [(''service.name'', ''web-app''),
                                    (''service.version'', ''0.41.7''),
                                    (''host.name'', ''host-a'')]\<rparr>,
         tracer_cfg = simple_resolved\<rparr>,
      obs_meter =
        \<lparr>meter = GlobalMeter StdoutPrettyPrint (5 * 1000000000), meter_cfg = simple_resolved\<rparr>\<rparr>"

section \<open>Configuration resolver\<close>

lemmas Mode_defs = Noop_def Local_def Debug_def Development_def Production_def

lemma Ensure_invalid:
  "Name (Service c) = [] \<or> Version (Service c) = [] \<Longrightarrow>
   Ensure answer c = (c, Some AppNotConfigured)"
  "Name (Service c) \<noteq> [] \<Longrightarrow> Version (Service c) \<noteq> [] \<Longrightarrow>
   Mode c \<noteq> Noop \<and> Mode c \<noteq> Local \<and> Mode c \<noteq> Debug \<and> Mode c \<noteq> Development
     \<and> Mode c \<noteq> Production \<Longrightarrow>
   Ensure answer c = (c, Some InvalidLogMode)"
  by (simp_all add: Ensure_def)

lemma Ensure_valid:
  assumes "Name (Service c) \<noteq> []" "Version (Service c) \<noteq> []"
    and "Mode c = Noop \<or> Mode c = Local \<or> Mode c = Debug \<or> Mode c = Development
           \<or> Mode c = Production"
  shows "Ensure answer c =
           (case answer of
              Inl msg \<Rightarrow> (filled c\<lparr>hostname := []\<rparr>, Some (InvalidHostname msg))
            | Inr name \<Rightarrow> (filled c\<lparr>hostname := name\<rparr>, None))"
proof -
  have a: "(Name (Service c) = [] \<or> Version (Service c) = []) = False"
    using assms(1,2) by simp
  have b: "(Mode c \<noteq> Noop \<and> Mode c \<noteq> Local \<and> Mode c \<noteq> Debug
              \<and> Mode c \<noteq> Development \<and> Mode c \<noteq> Production) = False"
    using assms(3) by blast
  show ?thesis
    unfolding Ensure_def a b if_False
    by (cases c; cases answer) (simp_all add: filled_def Let_def)
qed

lemma filled_again:
  "Name (Service c) \<noteq> [] \<Longrightarrow> filled (filled c\<lparr>hostname := n\<rparr>) = filled c\<lparr>hostname := n\<rparr>"
  by (cases c) (simp add: filled_def word_sle_eq)

lemma Ensure_ok_shape:
  assumes "Ensure answer c = (c1, None)"
  shows "Name (Service c) \<noteq> [] \<and> Version (Service c) \<noteq> []
         \<and> (Mode c = Noop \<or> Mode c = Local \<or> Mode c = Debug \<or> Mode c = Development
              \<or> Mode c = Production)
         \<and> answer = Inr (hostname c1) \<and> c1 = filled c\<lparr>hostname := hostname c1\<rparr>"
proof -
  have n: "Name (Service c) \<noteq> []" "Version (Service c) \<noteq> []"
    using assms Ensure_invalid(1) [of c answer] by auto
  have m: "Mode c = Noop \<or> Mode c = Local \<or> Mode c = Debug \<or> Mode c = Development
              \<or> Mode c = Production"
    using assms n Ensure_invalid(2) [of c answer] by auto
  from assms Ensure_valid [OF n m, of answer]
  have "answer = Inr (hostname c1) \<and> c1 = filled c\<lparr>hostname := hostname c1\<rparr>"
    by (cases answer) auto
  with n m show ?thesis by simp
qed

text \<open>
  C5, as amended. A configuration whose service name or version is empty is rejected with
  the error "app not configured"; a configuration whose name and version are both set and
  whose mode is none of the five named values is rejected with "invalid log mode". Either
  way the configuration is left as it was and \<^verbatim>\<open>NewObservability\<close> returns the error
  and no client. (The identity check comes first: a configuration with both defects gets
  the first error.)
\<close>

theorem Ensure_rejects:
  "(Name (Service c) = [] \<or> Version (Service c) = [] \<longrightarrow>
      Ensure answer c = (c, Some AppNotConfigured)
      \<and> NewObservability (sdk\<lparr>os_Hostname := answer\<rparr>) c = Inl AppNotConfigured)
   \<and> (Name (Service c) \<noteq> [] \<and> Version (Service c) \<noteq> []
        \<and> Mode c \<notin> {Noop, Local, Debug, Development, Production} \<longrightarrow>
      Ensure answer c = (c, Some InvalidLogMode)
      \<and> NewObservability (sdk\<lparr>os_Hostname := answer\<rparr>) c = Inl InvalidLogMode)"
  by (simp add: Ensure_def NewObservability_def)

theorem Ensure_rejects_witness:
  "Name (Service (simple_cfg\<lparr>Service := \<lparr>Name = [], Version = ''0.41.7''\<rparr>\<rparr>)) = []
   \<and> NewObservability quiet_sdk (simple_cfg\<lparr>Service := \<lparr>Name = [], Version = ''0.41.7''\<rparr>\<rparr>)
       = Inl AppNotConfigured
   \<and> Mode (simple_cfg\<lparr>Mode := 7\<rparr>) \<notin> {Noop, Local, Debug, Development, Production}
   \<and> NewObservability quiet_sdk (simple_cfg\<lparr>Mode := 7\<rparr>) = Inl InvalidLogMode"
  using Ensure_rejects [of "simple_cfg\<lparr>Service := \<lparr>Name = [], Version = ''0.41.7''\<rparr>\<rparr>"
                           "Inr ''host-a''" quiet_sdk]
        Ensure_rejects [of "simple_cfg\<lparr>Mode := 7\<rparr>" "Inr ''host-a''" quiet_sdk]
  by (simp add: simple_cfg_def Config_zero_def quiet_sdk_def Mode_defs)

text \<open>
  The claim as written fails where both defects meet: the zero configuration with mode 7
  has a mode outside the five values, and the error is "app not configured".
\<close>

theorem invalid_mode_empty_name_counterexample:
  "Mode (Config_zero\<lparr>Mode := 7\<rparr>) \<notin> {Noop, Local, Debug, Development, Production}
   \<and> Ensure (Inr ''host-a'') (Config_zero\<lparr>Mode := 7\<rparr>)
       = (Config_zero\<lparr>Mode := 7\<rparr>, Some AppNotConfigured)
   \<and> snd (Ensure (Inr ''host-a'') (Config_zero\<lparr>Mode := 7\<rparr>)) \<noteq> Some InvalidLogMode
   \<and> NewObservability quiet_sdk (Config_zero\<lparr>Mode := 7\<rparr>) \<noteq> Inl InvalidLogMode"
  by (simp add: Ensure_def NewObservability_def Config_zero_def quiet_sdk_def Mode_defs)

text \<open>
  C6, as amended. After a successful \<^verbatim>\<open>Ensure\<close>, a second call changes nothing but the
  hostname, which it reads from the operating system again: search index, flush interval,
  timeout and port keep their values; the call succeeds and stores the new answer when the
  lookup succeeds, and fails with the hostname error (hostname emptied) when it does not.
  When the operating system gives the answer it gave before, the second call succeeds and
  the configuration is unchanged.
\<close>

theorem Ensure_again:
  assumes "Ensure answer1 c = (c1, None)"
  shows "Ensure answer2 c1 =
           (case answer2 of
              Inl msg \<Rightarrow> (c1\<lparr>hostname := []\<rparr>, Some (InvalidHostname msg))
            | Inr name \<Rightarrow> (c1\<lparr>hostname := name\<rparr>, None))
         \<and> Ensure answer1 c1 = (c1, None)"
proof -
  note s = Ensure_ok_shape [OF assms]
  from s have c1: "c1 = filled c\<lparr>hostname := hostname c1\<rparr>" by simp
  from s have n: "Name (Service c) \<noteq> []" "Version (Service c) \<noteq> []" by simp_all
  have f: "filled c1 = c1"
    using filled_again [OF n(1), of "hostname c1"] c1 by simp
  have same: "Service c1 = Service c" "Mode c1 = Mode c"
    by (subst c1, simp add: filled_def)+
  have again: "Ensure a c1 =
           (case a of
              Inl msg \<Rightarrow> (c1\<lparr>hostname := []\<rparr>, Some (InvalidHostname msg))
            | Inr name \<Rightarrow> (c1\<lparr>hostname := name\<rparr>, None))" for a
  proof -
    have "Name (Service c1) \<noteq> []" "Version (Service c1) \<noteq> []"
      and "Mode c1 = Noop \<or> Mode c1 = Local \<or> Mode c1 = Debug \<or> Mode c1 = Development
             \<or> Mode c1 = Production"
      using s unfolding same by simp_all
    from Ensure_valid [OF this, of a] show ?thesis unfolding f .
  qed
  from s have "answer1 = Inr (hostname c1)" by simp
  then have "Ensure answer1 c1 = (c1, None)"
    using again [of answer1] by simp
  with again [of answer2] show ?thesis by simp
qed

theorem Ensure_again_witness:
  "Ensure (Inr ''host-a'') simple_cfg = (simple_cfg\<lparr>Port := ''80'', hostname := ''host-a''\<rparr>, None)
   \<and> Ensure (Inr ''host-b'') (simple_cfg\<lparr>Port := ''80'', hostname := ''host-a''\<rparr>)
       = (simple_cfg\<lparr>Port := ''80'', hostname := ''host-b''\<rparr>, None)
   \<and> Ensure (Inr ''host-a'') (simple_cfg\<lparr>Port := ''80'', hostname := ''host-a''\<rparr>)
       = (simple_cfg\<lparr>Port := ''80'', hostname := ''host-a''\<rparr>, None)"
proof -
  have h: "Ensure (Inr ''host-a'') simple_cfg
             = (simple_cfg\<lparr>Port := ''80'', hostname := ''host-a''\<rparr>, None)"
    by (simp add: Ensure_def simple_cfg_def Config_zero_def Mode_defs word_sle_eq)
  show ?thesis
    using h Ensure_again [OF h, of "Inr ''host-b''"] by simp
qed

text \<open>
  The claim as written fails on the hostname: the example configuration resolves on a
  machine named host-a; resolved again when the machine answers host-b the hostname
  changes, and resolved again when the lookup fails the call fails.
\<close>

theorem Ensure_twice_hostname_counterexample:
  "Ensure (Inr ''host-a'') simple_cfg = (simple_cfg\<lparr>Port := ''80'', hostname := ''host-a''\<rparr>, None)
   \<and> hostname (fst (Ensure (Inr ''host-b'') (simple_cfg\<lparr>Port := ''80'', hostname := ''host-a''\<rparr>)))
       \<noteq> hostname (simple_cfg\<lparr>Port := ''80'', hostname := ''host-a''\<rparr>)
   \<and> snd (Ensure (Inl ''no hostname'') (simple_cfg\<lparr>Port := ''80'', hostname := ''host-a''\<rparr>))
       = Some (InvalidHostname ''no hostname'')"
  by (simp add: Ensure_def simple_cfg_def Config_zero_def Mode_defs word_sle_eq)

text \<open>
  C9. \<^verbatim>\<open>GetSearchIndex\<close> returns the stored search index unchanged in every mode; the
  branch on Development mode returns the same field, so no suffix is added there.
\<close>

theorem GetSearchIndex_is_field:
  "GetSearchIndex c = SearchIndex c
   \<and> GetSearchIndex (c\<lparr>Mode := Development\<rparr>) = SearchIndex c"
  by (simp add: GetSearchIndex_def)

section \<open>Field merge policy\<close>

lemma generateOTLPFields_parts:
  "generateOTLPFields log now e =
     fixed_fields (log_cfg log) now (Component e) (Operation e)
     @ (case Err e of None \<Rightarrow> [] | Some err \<Rightarrow> [zap_Error err])
     @ (if stacktrace e \<noteq> []
        then [zap_String ''stacktrace.hash'' (MD5Hash (bytes_of (stacktrace e))),
              zap_String ''stacktrace'' (stacktrace e)]
        else [])
     @ string_fields (Fields e)
     @ default_fields (log_cfg log)"
  by (simp add: generateOTLPFields_def Let_def fixed_fields_def string_fields_def
      default_fields_def split: option.splits)

lemma generateOTLPFields_tail:
  "\<exists>pre. generateOTLPFields log now e =
           pre @ string_fields (Fields e) @ default_fields (log_cfg log)"
  unfolding generateOTLPFields_parts by (metis append.assoc)

lemma map_of_rev_distinct:
  "distinct (map fst xs) \<Longrightarrow> map_of (rev xs) = map_of xs"
  by (rule map_of_inject_set [THEN iffD2]) (simp_all add: rev_map [symmetric])

lemma fst_zap_String: "fst \<circ> (\<lambda>(key, val). zap_String key val) = fst"
  by (auto simp: zap_String_def fun_eq_iff)

lemma keys_string_fields: "map fst (string_fields m) = map fst m"
  by (simp add: string_fields_def fst_zap_String)

lemma map_of_string_fields:
  "map_of (string_fields m) k = map_option StringValue (map_of m k)"
  unfolding string_fields_def by (induction m) (auto simp: zap_String_def)

lemma last_value_string_fields:
  assumes "distinct (map fst m)"
  shows "last_value k (string_fields m) = map_option StringValue (map_of m k)"
proof -
  have "distinct (map fst (string_fields m))"
    using assms by (simp only: keys_string_fields)
  then show ?thesis
    unfolding last_value_def by (simp only: map_of_rev_distinct map_of_string_fields)
qed

lemma last_value_append:
  "last_value k (xs @ ys) = (case last_value k ys of None \<Rightarrow> last_value k xs | Some v \<Rightarrow> Some v)"
  by (simp add: last_value_def map_add_def split: option.splits)

lemma last_value_None: "k \<notin> set (map fst xs) \<Longrightarrow> last_value k xs = None"
  by (simp add: last_value_def map_of_eq_None_iff)

text \<open>
  C2, as amended. The generated list holds the fixed resource attributes first, then the
  call-site fields, then the process default fields. Read with a later field replacing an
  earlier one of the same key, a call-site field wins over every fixed attribute (a call
  field \<^verbatim>\<open>service.name\<close> = X replaces the computed \<^verbatim>\<open>service.name\<close>) as long as no
  default field has its key, and a default field wins over a call-site field of the same
  key. The keys of a Go map are distinct.
\<close>

theorem merge_precedence:
  assumes "distinct (map fst (Fields e))" and "map_of (Fields e) k = Some v"
  shows "(k \<notin> default_keys (log_cfg log) \<longrightarrow>
            last_value k (generateOTLPFields log now e) = Some (StringValue v))
       \<and> (\<forall>m d. DefaultFields (log_cfg log) = Some m \<and> distinct (map fst m)
                  \<and> map_of m k = Some d \<longrightarrow>
            last_value k (generateOTLPFields log now e) = Some (StringValue d))"
proof -
  obtain pre where parts:
    "generateOTLPFields log now e = pre @ string_fields (Fields e) @ default_fields (log_cfg log)"
    using generateOTLPFields_tail by blast
  have call: "last_value k (string_fields (Fields e)) = Some (StringValue v)"
    using assms by (simp add: last_value_string_fields)
  show ?thesis
  proof (cases "DefaultFields (log_cfg log)")
    case None
    then have "default_fields (log_cfg log) = []"
      by (simp add: default_fields_def)
    with None show ?thesis
      unfolding parts last_value_append by (simp add: last_value_def call [unfolded last_value_def])
  next
    case (Some m)
    have df: "default_fields (log_cfg log) = string_fields m"
      using Some by (simp add: default_fields_def)
    have a: "last_value k (string_fields m) = None" if "k \<notin> default_keys (log_cfg log)"
    proof (rule last_value_None)
      show "k \<notin> set (map fst (string_fields m))"
        using that Some unfolding keys_string_fields by (simp add: default_keys_def)
    qed
    have b: "last_value k (string_fields m) = Some (StringValue d)"
      if "distinct (map fst m)" "map_of m k = Some d" for d
      using that by (simp add: last_value_string_fields)
    show ?thesis
      unfolding parts df last_value_append
      using a b call Some by auto
  qed
qed

theorem merge_precedence_witness:
  "last_value ''service.name''
     (generateOTLPFields simple_logger 0
        (new_Entry ''comp'' ''op'' ''hello'' None [(''service.name'', ''X'')]))
     = Some (StringValue ''X'')
   \<and> last_value ''service.name''
     (generateOTLPFields
        (simple_logger\<lparr>log_cfg := simple_resolved\<lparr>DefaultFields := Some [(''service.name'', ''D'')]\<rparr>\<rparr>) 0
        (new_Entry ''comp'' ''op'' ''hello'' None [(''service.name'', ''X'')]))
     = Some (StringValue ''D'')"
  using merge_precedence
          [of "new_Entry ''comp'' ''op'' ''hello'' None [(''service.name'', ''X'')]"
              "''service.name''" "''X''" simple_logger 0]
        merge_precedence
          [of "new_Entry ''comp'' ''op'' ''hello'' None [(''service.name'', ''X'')]"
              "''service.name''" "''X''"
              "simple_logger\<lparr>log_cfg :=
                 simple_resolved\<lparr>DefaultFields := Some [(''service.name'', ''D'')]\<rparr>\<rparr>" 0]
  by (simp add: new_Entry_def default_keys_def simple_logger_def simple_resolved_def
      simple_cfg_def Config_zero_def)

text \<open>
  The claim as written fails where a call-site field meets a default field. With the
  service named web-app, the default field \<^verbatim>\<open>service.name\<close> = D and the call field
  \<^verbatim>\<open>service.name\<close> = X, the list holds the three values in the order web-app, X, D:
  the call-site value is neither the first nor the last, so it is the value of the key
  for neither reader.
\<close>

theorem call_field_loses_to_default_counterexample:
  "map (\<lambda>f. snd f) (filter (\<lambda>f. fst f = ''service.name'')
     (generateOTLPFields
        (simple_logger\<lparr>log_cfg := simple_resolved\<lparr>DefaultFields := Some [(''service.name'', ''D'')]\<rparr>\<rparr>) 0
        (new_Entry ''comp'' ''op'' ''hello'' None [(''service.name'', ''X'')])))
     = [StringValue ''web-app'', StringValue ''X'', StringValue ''D'']
   \<and> last_value ''service.name''
     (generateOTLPFields
        (simple_logger\<lparr>log_cfg := simple_resolved\<lparr>DefaultFields := Some [(''service.name'', ''D'')]\<rparr>\<rparr>) 0
        (new_Entry ''comp'' ''op'' ''hello'' None [(''service.name'', ''X'')]))
     \<noteq> Some (StringValue ''X'')
   \<and> first_value ''service.name''
     (generateOTLPFields
        (simple_logger\<lparr>log_cfg := simple_resolved\<lparr>DefaultFields := Some [(''service.name'', ''D'')]\<rparr>\<rparr>) 0
        (new_Entry ''comp'' ''op'' ''hello'' None [(''service.name'', ''X'')]))
     \<noteq> Some (StringValue ''X'')"
  by (simp add: generateOTLPFields_def new_Entry_def simple_logger_def simple_resolved_def
      simple_cfg_def Config_zero_def zap_String_def zap_Time_def GetHostname_def
      last_value_def first_value_def)

section \<open>Stack traces and their digest\<close>

lemma pad_arith: "(n + 1 + (119 - n mod 64) mod 64 + 8) mod 64 = 0" for n :: nat
proof -
  define r where "r = n mod 64"
  define q where "q = n div 64"
  have n: "n = 64 * q + r" and r: "r < 64"
    by (simp_all add: r_def q_def)
  show ?thesis
  proof (cases "r \<le> 55")
    case True
    then have "(119 - r) mod 64 = 55 - r"
      by (simp add: mod_if)
    with True have "n + 1 + (119 - r) mod 64 + 8 = 64 * (q + 1)"
      using n by simp
    then show ?thesis
      unfolding r_def [symmetric] by (metis mod_mult_self1_is_0)
  next
    case False
    with r have "(119 - r) mod 64 = 119 - r"
      by simp
    with False r have "n + 1 + (119 - r) mod 64 + 8 = 64 * (q + 2)"
      using n by simp
    then show ?thesis
      unfolding r_def [symmetric] by (metis mod_mult_self1_is_0)
  qed
qed

text \<open>The padded message is a whole number of 64-byte blocks, so every block read is full.\<close>

lemma length_md5_pad: "length (md5_pad bs) mod 64 = 0"
proof -
  have "length (md5_pad bs) = length bs + 1 + (119 - length bs mod 64) mod 64 + 8"
    by (simp add: md5_pad_def le_bytes64_def)
  then show ?thesis
    by (simp only: pad_arith)
qed

lemma length_md5_Sum: "length (md5_Sum bs) = 16"
  by (simp add: md5_Sum_def Let_def le_bytes32_def split: prod.split)

lemma length_Sprintf_x: "length (Sprintf_x bs) = 2 * length bs"
  by (induction bs) (simp_all add: Sprintf_x_def hex_byte_def)

lemma hex_digit_is_hex: "n < 16 \<Longrightarrow> is_hex (hex_digit n)"
  unfolding hex_digit_def is_hex_def by (rule nth_mem) simp

lemma hex_byte_is_hex: "list_all is_hex (hex_byte b)"
proof -
  have "unat b < 256" using unsigned_less [of b] by simp
  then have "unat b div 16 < 16" "unat b mod 16 < 16" by simp_all
  then show ?thesis
    by (simp add: hex_byte_def hex_digit_is_hex)
qed

lemma Sprintf_x_is_hex: "list_all is_hex (Sprintf_x bs)"
  by (induction bs) (simp_all add: Sprintf_x_def hex_byte_is_hex)

lemma MD5Hash_shape: "length (MD5Hash data) = 32 \<and> list_all is_hex (MD5Hash data)"
  by (simp add: MD5Hash_def length_Sprintf_x length_md5_Sum Sprintf_x_is_hex)

text \<open>The digest of the empty input and of a one-line trace, as \<^verbatim>\<open>crypto/md5\<close> gives them.\<close>

lemma MD5Hash_empty: "MD5Hash (bytes_of []) = ''d41d8cd98f00b204e9800998ecf8427e''"
  by code_simp

lemma MD5Hash_goroutine:
  "MD5Hash (bytes_of ''goroutine 1 [running]:'') = ''10dd6afaa3efac4e0b0b0df121e5c31f''"
  by code_simp

lemma rec_fields_with_stack:
  assumes "stack \<noteq> []"
  shows "rec_fields (logWithLevel log now
                       (new_Entry component operation message err flds\<lparr>stacktrace := stack\<rparr>) lvl) =
           fixed_fields (log_cfg log) now component operation
           @ (case err of None \<Rightarrow> [] | Some x \<Rightarrow> [zap_Error x])
           @ [zap_String ''stacktrace.hash'' (MD5Hash (bytes_of stack)),
              zap_String ''stacktrace'' stack]
           @ string_fields flds
           @ default_fields (log_cfg log)"
  using assms by (simp add: logWithLevel_def generateOTLPFields_parts new_Entry_def)

lemma rec_fields_without_stack:
  "rec_fields (logWithLevel log now (new_Entry component operation message None flds) lvl) =
     fixed_fields (log_cfg log) now component operation
     @ string_fields flds
     @ default_fields (log_cfg log)"
  by (simp add: logWithLevel_def generateOTLPFields_parts new_Entry_def)

lemma keys_fixed_fields:
  "map fst (fixed_fields c now component operation) =
     [''service.name'', ''service.version'', ''host.name'', ''component'', ''operation'',
      ''timestamp'']"
  by (simp add: fixed_fields_def zap_String_def zap_Time_def)

lemma keys_set_string_fields: "fst ` set (string_fields m) = fst ` set m"
  by (metis keys_string_fields set_map)

lemma keys_default_fields: "set (map fst (default_fields c)) = default_keys c"
  by (simp add: default_fields_def default_keys_def keys_set_string_fields split: option.splits)

lemma string_fields_no_error: "zap_Error x \<notin> set (string_fields m)"
  by (auto simp: string_fields_def zap_Error_def zap_String_def)

lemma default_fields_no_error: "zap_Error x \<notin> set (default_fields c)"
  by (simp add: default_fields_def string_fields_no_error split: option.splits)

lemma fixed_fields_no_error: "zap_Error x \<notin> set (fixed_fields c now component operation)"
  by (simp add: fixed_fields_def zap_Error_def zap_String_def zap_Time_def)

lemma MD5Hash_abc: "MD5Hash (bytes_of ''abc'') = ''900150983cd24fb0d6963f7d28e17f72''"
  by code_simp

lemma MD5Hash_goroutine7:
  "MD5Hash (bytes_of ''goroutine 7 [running]:'') = ''bb3bafc6662850331409ce270a14a13e''"
  by code_simp

lemma stack_fields_attached:
  assumes "stack \<noteq> []"
  shows "zap_String ''stacktrace.hash'' (MD5Hash (bytes_of stack))
           \<in> set (rec_fields (logWithLevel log now (e\<lparr>stacktrace := stack\<rparr>) lvl))
         \<and> zap_String ''stacktrace'' stack
           \<in> set (rec_fields (logWithLevel log now (e\<lparr>stacktrace := stack\<rparr>) lvl))"
  using assms by (simp add: logWithLevel_def generateOTLPFields_parts)

lemma rec_fields_empty_stacktrace:
  assumes "stacktrace e = []"
  shows "rec_fields (logWithLevel log now e lvl) =
           fixed_fields (log_cfg log) now (Component e) (Operation e)
           @ (case Err e of None \<Rightarrow> [] | Some x \<Rightarrow> [zap_Error x])
           @ string_fields (Fields e)
           @ default_fields (log_cfg log)"
  using assms by (simp add: logWithLevel_def generateOTLPFields_parts)

lemma stack_keys_only_supplied:
  assumes "k = ''stacktrace.hash'' \<or> k = ''stacktrace''"
    and "k \<in> set (map fst (fixed_fields c now component operation
                              @ (case err of None \<Rightarrow> [] | Some x \<Rightarrow> [zap_Error x])
                              @ string_fields flds @ default_fields c))"
  shows "k \<in> set (map fst flds) \<union> default_keys c"
proof -
  have fixed: "k \<notin> set (map fst (fixed_fields c now component operation))"
    using assms(1) unfolding keys_fixed_fields by auto
  have error: "k \<notin> set (map fst (case err of None \<Rightarrow> [] | Some x \<Rightarrow> [zap_Error x]))"
    using assms(1) by (cases err) (auto simp: zap_Error_def)
  from assms(2) fixed error
  have "k \<in> set (map fst (string_fields flds)) \<or> k \<in> set (map fst (default_fields c))"
    by (simp only: map_append set_append Un_iff) blast
  then show ?thesis
    by (simp only: keys_string_fields keys_default_fields Un_iff)
qed

text \<open>
  C4, as amended. Every Warn, Error or Fatal call, of the logger and so of the facade,
  stores the captured trace in its entry (the trace \<^verbatim>\<open>debug.Stack()\<close> returns is never
  empty), and the generated fields hold \<^verbatim>\<open>stacktrace.hash\<close>, the MD5 digest of the
  bytes of the trace printed as 32 lower-case hexadecimal digits (the digest of RFC 1321:
  it takes the values of that document on the empty input and on abc), together with
  \<^verbatim>\<open>stacktrace\<close>, the trace itself. A Debug or Info call attaches no digest when the
  entry it is given holds no trace, which is so for every entry that has not gone through
  Warn, Error or Fatal before and so for every Debug or Info call of the facade, which
  makes a new entry: the fields are then the fixed fields, the error field if the entry
  has an error, the call's fields and the default fields and nothing else, so that a field
  named \<^verbatim>\<open>stacktrace.hash\<close> or \<^verbatim>\<open>stacktrace\<close> is there only if the caller or the
  configuration supplied one under that name.
\<close>

theorem stacktrace_digest_by_severity:
  assumes "stack \<noteq> []"
  shows "(\<forall>p \<in> {OTLPLogger_Warn log now stack e, OTLPLogger_Error log now stack e,
                 OTLPLogger_Fatal log now stack e}.
            stacktrace (fst p) = stack
            \<and> zap_String ''stacktrace.hash'' (MD5Hash (bytes_of stack)) \<in> set (rec_fields (snd p))
            \<and> zap_String ''stacktrace'' stack \<in> set (rec_fields (snd p)))
       \<and> (\<forall>r \<in> {client_Warn obs now stack component operation message err flds,
                   client_Error obs now stack component operation message err flds,
                   client_Fatal obs now stack component operation message err flds}.
            zap_String ''stacktrace.hash'' (MD5Hash (bytes_of stack)) \<in> set (rec_fields r)
            \<and> zap_String ''stacktrace'' stack \<in> set (rec_fields r))
       \<and> length (MD5Hash (bytes_of stack)) = 32
       \<and> list_all is_hex (MD5Hash (bytes_of stack))
       \<and> MD5Hash (bytes_of []) = ''d41d8cd98f00b204e9800998ecf8427e''
       \<and> MD5Hash (bytes_of ''abc'') = ''900150983cd24fb0d6963f7d28e17f72''
       \<and> (stacktrace e = [] \<longrightarrow>
            (\<forall>p \<in> {OTLPLogger_Debug log now e, OTLPLogger_Info log now e}.
               fst p = e
               \<and> rec_fields (snd p) =
                   fixed_fields (log_cfg log) now (Component e) (Operation e)
                   @ (case Err e of None \<Rightarrow> [] | Some x \<Rightarrow> [zap_Error x])
                   @ string_fields (Fields e) @ default_fields (log_cfg log)
               \<and> (\<forall>k \<in> {''stacktrace.hash'', ''stacktrace''}.
                     k \<in> set (map fst (rec_fields (snd p))) \<longrightarrow>
                     k \<in> set (map fst (Fields e)) \<union> default_keys (log_cfg log))))
       \<and> (\<forall>r \<in> {client_Debug obs now component operation message flds,
                   client_Info obs now component operation message flds}.
            rec_fields r =
              fixed_fields (log_cfg (obs_logger obs)) now component operation
              @ string_fields flds @ default_fields (log_cfg (obs_logger obs))
            \<and> (\<forall>k \<in> {''stacktrace.hash'', ''stacktrace''}.
                  k \<in> set (map fst (rec_fields r)) \<longrightarrow>
                  k \<in> set (map fst flds) \<union> default_keys (log_cfg (obs_logger obs))))"
proof -
  have logger_stack:
    "\<forall>p \<in> {OTLPLogger_Warn log now stack e, OTLPLogger_Error log now stack e,
             OTLPLogger_Fatal log now stack e}.
       stacktrace (fst p) = stack
       \<and> zap_String ''stacktrace.hash'' (MD5Hash (bytes_of stack)) \<in> set (rec_fields (snd p))
       \<and> zap_String ''stacktrace'' stack \<in> set (rec_fields (snd p))"
    using stack_fields_attached [OF assms, of log now e]
    by (simp add: OTLPLogger_Warn_def OTLPLogger_Error_def OTLPLogger_Fatal_def Let_def)
  have client_stack:
    "\<forall>r \<in> {client_Warn obs now stack component operation message err flds,
             client_Error obs now stack component operation message err flds,
             client_Fatal obs now stack component operation message err flds}.
       zap_String ''stacktrace.hash'' (MD5Hash (bytes_of stack)) \<in> set (rec_fields r)
       \<and> zap_String ''stacktrace'' stack \<in> set (rec_fields r)"
    using stack_fields_attached
            [OF assms, of "obs_logger obs" now "new_Entry component operation message err flds"]
    by (simp add: client_Warn_def client_Error_def client_Fatal_def OTLPLogger_Warn_def
        OTLPLogger_Error_def OTLPLogger_Fatal_def Let_def)
  have logger_plain:
    "\<forall>p \<in> {OTLPLogger_Debug log now e, OTLPLogger_Info log now e}.
       fst p = e
       \<and> rec_fields (snd p) =
           fixed_fields (log_cfg log) now (Component e) (Operation e)
           @ (case Err e of None \<Rightarrow> [] | Some x \<Rightarrow> [zap_Error x])
           @ string_fields (Fields e) @ default_fields (log_cfg log)
       \<and> (\<forall>k \<in> {''stacktrace.hash'', ''stacktrace''}.
             k \<in> set (map fst (rec_fields (snd p))) \<longrightarrow>
             k \<in> set (map fst (Fields e)) \<union> default_keys (log_cfg log))"
    if empty: "stacktrace e = []"
  proof -
    have keys: "k \<in> set (map fst (rec_fields (logWithLevel log now e lvl))) \<longrightarrow>
                k \<in> set (map fst (Fields e)) \<union> default_keys (log_cfg log)"
      if "k = ''stacktrace.hash'' \<or> k = ''stacktrace''" for k lvl
      unfolding rec_fields_empty_stacktrace [OF empty]
      using stack_keys_only_supplied [OF that] by blast
    show ?thesis
      using keys rec_fields_empty_stacktrace [OF empty, of log now]
      by (simp add: OTLPLogger_Debug_def OTLPLogger_Info_def del: map_append set_append)
  qed
  have client_plain:
    "\<forall>r \<in> {client_Debug obs now component operation message flds,
             client_Info obs now component operation message flds}.
       rec_fields r =
         fixed_fields (log_cfg (obs_logger obs)) now component operation
         @ string_fields flds @ default_fields (log_cfg (obs_logger obs))
       \<and> (\<forall>k \<in> {''stacktrace.hash'', ''stacktrace''}.
             k \<in> set (map fst (rec_fields r)) \<longrightarrow>
             k \<in> set (map fst flds) \<union> default_keys (log_cfg (obs_logger obs)))"
  proof -
    have keys: "k \<in> set (map fst (fixed_fields c now component operation @ string_fields flds
                                     @ default_fields c)) \<longrightarrow>
                k \<in> set (map fst flds) \<union> default_keys c"
      if "k = ''stacktrace.hash'' \<or> k = ''stacktrace''" for k c
      using stack_keys_only_supplied [OF that, of c now component operation None flds]
      by simp
    show ?thesis
      using keys
      by (simp add: client_Debug_def client_Info_def OTLPLogger_Debug_def OTLPLogger_Info_def
          rec_fields_without_stack del: map_append set_append)
  qed
  from logger_stack client_stack MD5Hash_shape [of "bytes_of stack"] MD5Hash_empty MD5Hash_abc
    logger_plain client_plain
  show ?thesis by blast
qed

theorem stacktrace_digest_by_severity_witness:
  "''goroutine 1 [running]:'' \<noteq> []
   \<and> zap_String ''stacktrace.hash'' ''10dd6afaa3efac4e0b0b0df121e5c31f''
       \<in> set (rec_fields (client_Error simple_client 0 ''goroutine 1 [running]:''
                 ''payment-service'' ''process-payment'' ''Payment processing failed''
                 (Some ''insufficient funds'') [(''order_id'', ''order-123'')]))
   \<and> zap_String ''stacktrace'' ''goroutine 1 [running]:''
       \<in> set (rec_fields (client_Error simple_client 0 ''goroutine 1 [running]:''
                 ''payment-service'' ''process-payment'' ''Payment processing failed''
                 (Some ''insufficient funds'') [(''order_id'', ''order-123'')]))
   \<and> zap_String ''stacktrace.hash'' ''bb3bafc6662850331409ce270a14a13e''
       \<in> set (rec_fields (snd (OTLPLogger_Warn simple_logger 0 ''goroutine 7 [running]:''
                 (new_Entry ''api-gateway'' ''rate-limit'' ''Rate limit approaching''
                    (Some ''high request volume'') [(''limit'', ''1000'')]))))
   \<and> stacktrace (new_Entry ''api-gateway'' ''rate-limit'' ''Rate limit approaching''
                    (Some ''high request volume'') [(''limit'', ''1000'')]) = []
   \<and> ''stacktrace.hash''
       \<notin> set (map fst (rec_fields (snd (OTLPLogger_Info simple_logger 0
                 (new_Entry ''api-gateway'' ''rate-limit'' ''Rate limit approaching''
                    (Some ''high request volume'') [(''limit'', ''1000'')])))))
   \<and> ''stacktrace.hash''
       \<notin> set (map fst (rec_fields (client_Info simple_client 0
                 ''payment-service'' ''process-payment'' ''Payment processing failed''
                 [(''order_id'', ''order-123'')])))"
proof -
  have s1: "''goroutine 1 [running]:'' \<noteq> []" and s7: "''goroutine 7 [running]:'' \<noteq> []"
    by simp_all
  have z: "stacktrace (new_Entry ''api-gateway'' ''rate-limit'' ''Rate limit approaching''
                    (Some ''high request volume'') [(''limit'', ''1000'')]) = []"
    by (simp add: new_Entry_def)
  have f: "Fields (new_Entry ''api-gateway'' ''rate-limit'' ''Rate limit approaching''
                    (Some ''high request volume'') [(''limit'', ''1000'')])
             = [(''limit'', ''1000'')]"
    by (simp add: new_Entry_def)
  have k: "default_keys (log_cfg (obs_logger simple_client)) = {}"
          "default_keys (log_cfg simple_logger) = {}"
    by (simp_all add: default_keys_def simple_client_def simple_logger_def simple_resolved_def
        simple_cfg_def Config_zero_def)
  note t1 = stacktrace_digest_by_severity
             [OF s1, where obs = simple_client and now = 0
                and component = "''payment-service''" and operation = "''process-payment''"
                and message = "''Payment processing failed''"
                and err = "Some ''insufficient funds''"
                and flds = "[(''order_id'', ''order-123'')]"
                and log = simple_logger
                and e = "new_Entry ''api-gateway'' ''rate-limit'' ''Rate limit approaching''
                           (Some ''high request volume'') [(''limit'', ''1000'')]"]
  note t7 = stacktrace_digest_by_severity
             [OF s7, where obs = simple_client and now = 0
                and component = "''payment-service''" and operation = "''process-payment''"
                and message = "''Payment processing failed''"
                and err = "Some ''insufficient funds''"
                and flds = "[(''order_id'', ''order-123'')]"
                and log = simple_logger
                and e = "new_Entry ''api-gateway'' ''rate-limit'' ''Rate limit approaching''
                           (Some ''high request volume'') [(''limit'', ''1000'')]"]
  from t1 have a:
    "zap_String ''stacktrace.hash'' (MD5Hash (bytes_of ''goroutine 1 [running]:''))
       \<in> set (rec_fields (client_Error simple_client 0 ''goroutine 1 [running]:''
                 ''payment-service'' ''process-payment'' ''Payment processing failed''
                 (Some ''insufficient funds'') [(''order_id'', ''order-123'')]))
     \<and> zap_String ''stacktrace'' ''goroutine 1 [running]:''
       \<in> set (rec_fields (client_Error simple_client 0 ''goroutine 1 [running]:''
                 ''payment-service'' ''process-payment'' ''Payment processing failed''
                 (Some ''insufficient funds'') [(''order_id'', ''order-123'')]))"
    by blast
  from t7 have b:
    "zap_String ''stacktrace.hash'' (MD5Hash (bytes_of ''goroutine 7 [running]:''))
       \<in> set (rec_fields (snd (OTLPLogger_Warn simple_logger 0 ''goroutine 7 [running]:''
                 (new_Entry ''api-gateway'' ''rate-limit'' ''Rate limit approaching''
                    (Some ''high request volume'') [(''limit'', ''1000'')]))))"
    by blast
  from t1 z have c:
    "''stacktrace.hash''
       \<in> set (map fst (rec_fields (snd (OTLPLogger_Info simple_logger 0
                 (new_Entry ''api-gateway'' ''rate-limit'' ''Rate limit approaching''
                    (Some ''high request volume'') [(''limit'', ''1000'')]))))) \<longrightarrow>
     ''stacktrace.hash''
       \<in> set (map fst (Fields (new_Entry ''api-gateway'' ''rate-limit'' ''Rate limit approaching''
                    (Some ''high request volume'') [(''limit'', ''1000'')])))
         \<union> default_keys (log_cfg simple_logger)"
    by blast
  from t1 have d:
    "''stacktrace.hash''
       \<in> set (map fst (rec_fields (client_Info simple_client 0
                 ''payment-service'' ''process-payment'' ''Payment processing failed''
                 [(''order_id'', ''order-123'')]))) \<longrightarrow>
     ''stacktrace.hash'' \<in> set (map fst [(''order_id'', ''order-123'')])
        \<union> default_keys (log_cfg (obs_logger simple_client))"
    by blast
  show ?thesis
    using s1 z a b c d unfolding f k MD5Hash_goroutine MD5Hash_goroutine7 by auto
qed

text \<open>
  The logger keeps the trace in the entry it is given: an entry passed to Warn and then,
  the same entry, to Info carries the trace into the second call.
\<close>

lemma reused_entry_keeps_stacktrace:
  assumes "stack \<noteq> []"
    and "OTLPLogger_Warn log t1 stack e = (e1, r1)"
    and "OTLPLogger_Info log t2 e1 = (e2, r2)"
  shows "stacktrace e2 = stack
         \<and> zap_String ''stacktrace.hash'' (MD5Hash (bytes_of stack)) \<in> set (rec_fields r2)"
proof -
  from assms(2) have e1: "e1 = e\<lparr>stacktrace := stack\<rparr>"
    by (simp add: OTLPLogger_Warn_def Let_def)
  from assms(3) have e2: "e2 = e1" and r2: "r2 = logWithLevel log t2 e1 InfoLevel"
    by (auto simp: OTLPLogger_Info_def)
  have "stacktrace e1 = stack"
    by (simp add: e1)
  with assms(1) show ?thesis
    unfolding e2 r2 by (simp add: logWithLevel_def generateOTLPFields_parts)
qed

text \<open>
  The claim as written fails on the logger's own methods. An entry with no fields is
  passed to Warn, which stores the trace in it, and then to Info: the Info call generates
  \<^verbatim>\<open>stacktrace.hash\<close> with the digest of the trace, though neither the caller nor the
  configuration supplies a field of that name.
\<close>

theorem Info_after_Warn_attaches_digest_counterexample:
  "Fields (fst (OTLPLogger_Warn simple_logger 0 ''goroutine 1 [running]:''
                  (new_Entry ''comp'' ''op'' ''hello'' None []))) = []
   \<and> default_keys (log_cfg simple_logger) = {}
   \<and> rec_level (snd (OTLPLogger_Info simple_logger 1
          (fst (OTLPLogger_Warn simple_logger 0 ''goroutine 1 [running]:''
                  (new_Entry ''comp'' ''op'' ''hello'' None []))))) = InfoLevel
   \<and> zap_String ''stacktrace.hash'' ''10dd6afaa3efac4e0b0b0df121e5c31f''
       \<in> set (rec_fields (snd (OTLPLogger_Info simple_logger 1
                 (fst (OTLPLogger_Warn simple_logger 0 ''goroutine 1 [running]:''
                         (new_Entry ''comp'' ''op'' ''hello'' None []))))))"
proof -
  have w: "fst (OTLPLogger_Warn simple_logger 0 ''goroutine 1 [running]:''
                  (new_Entry ''comp'' ''op'' ''hello'' None []))
             = new_Entry ''comp'' ''op'' ''hello'' None []
                 \<lparr>stacktrace := ''goroutine 1 [running]:''\<rparr>"
    by (simp add: OTLPLogger_Warn_def Let_def)
  have k: "default_keys (log_cfg simple_logger) = {}"
    by (simp add: default_keys_def simple_logger_def simple_resolved_def simple_cfg_def
        Config_zero_def)
  have i: "zap_String ''stacktrace.hash'' (MD5Hash (bytes_of ''goroutine 1 [running]:''))
             \<in> set (rec_fields (logWithLevel simple_logger 1
                       (new_Entry ''comp'' ''op'' ''hello'' None []
                          \<lparr>stacktrace := ''goroutine 1 [running]:''\<rparr>) InfoLevel))"
    by (rule stack_fields_attached [THEN conjunct1]) simp
  show ?thesis
    unfolding w k using i [unfolded MD5Hash_goroutine]
    by (simp add: OTLPLogger_Info_def new_Entry_def logWithLevel_def)
qed

text \<open>
  C10. The trace and its digest are attached because the call is Warn, Error or Fatal, not
  because an error is given: with a nil error the generated fields are the fixed fields,
  \<^verbatim>\<open>stacktrace.hash\<close>, \<^verbatim>\<open>stacktrace\<close>, the call's fields and the default fields,
  and no error field is among them.
\<close>

theorem stacktrace_attached_without_error:
  assumes "stack \<noteq> []"
  shows "\<forall>r \<in> {client_Warn obs now stack component operation message None flds,
                client_Error obs now stack component operation message None flds,
                client_Fatal obs now stack component operation message None flds}.
           rec_fields r =
             fixed_fields (log_cfg (obs_logger obs)) now component operation
             @ [zap_String ''stacktrace.hash'' (MD5Hash (bytes_of stack)),
                zap_String ''stacktrace'' stack]
             @ string_fields flds @ default_fields (log_cfg (obs_logger obs))
           \<and> (\<forall>x. zap_Error x \<notin> set (rec_fields r))"
proof -
  have "zap_Error x \<notin> set (fixed_fields c now component operation
             @ [zap_String ''stacktrace.hash'' (MD5Hash (bytes_of stack)),
                zap_String ''stacktrace'' stack]
             @ string_fields flds @ default_fields c)" for x c
    using fixed_fields_no_error [of x c now component operation]
      string_fields_no_error [of x flds] default_fields_no_error [of x c]
    by (simp add: zap_Error_def zap_String_def)
  then show ?thesis
    using rec_fields_with_stack [OF assms, where err = None]
    by (simp add: client_Warn_def client_Error_def client_Fatal_def OTLPLogger_Warn_def
        OTLPLogger_Error_def OTLPLogger_Fatal_def Let_def del: set_append)
qed

theorem stacktrace_attached_without_error_witness:
  "''goroutine 1 [running]:'' \<noteq> []
   \<and> rec_fields (client_Warn simple_client 0 ''goroutine 1 [running]:''
                  ''api-gateway'' ''rate-limit'' ''Rate limit approaching'' None
                  [(''limit'', ''1000'')])
       = fixed_fields simple_resolved 0 ''api-gateway'' ''rate-limit''
         @ [zap_String ''stacktrace.hash'' ''10dd6afaa3efac4e0b0b0df121e5c31f'',
            zap_String ''stacktrace'' ''goroutine 1 [running]:'',
            zap_String ''limit'' ''1000'']
   \<and> zap_Error ''high request volume''
       \<notin> set (rec_fields (client_Warn simple_client 0 ''goroutine 1 [running]:''
                  ''api-gateway'' ''rate-limit'' ''Rate limit approaching'' None
                  [(''limit'', ''1000'')]))"
proof -
  have s: "''goroutine 1 [running]:'' \<noteq> []" by simp
  have c: "log_cfg (obs_logger simple_client) = simple_resolved"
    by (simp add: simple_client_def simple_logger_def)
  have d: "default_fields simple_resolved = []"
    by (simp add: default_fields_def simple_resolved_def simple_cfg_def Config_zero_def)
  have f: "string_fields [(''limit'', ''1000'')] = [zap_String ''limit'' ''1000'']"
    by (simp add: string_fields_def)
  from stacktrace_attached_without_error
         [OF s, of simple_client 0 "''api-gateway''" "''rate-limit''"
            "''Rate limit approaching''" "[(''limit'', ''1000'')]"]
  show ?thesis
    unfolding c d f MD5Hash_goroutine
    using fixed_fields_no_error [of "''high request volume''" simple_resolved 0]
    by (simp add: zap_Error_def zap_String_def)
qed

section \<open>Mode routing\<close>

lemma simple_client_constructed: "NewObservability quiet_sdk simple_cfg = Inr simple_client"
  by (simp add: NewObservability_def Ensure_def simple_cfg_def Config_zero_def quiet_sdk_def
      Mode_defs word_sle_eq NewOTLPLogger_def NewTracer_def NewOtelMeter_def simple_client_def
      simple_logger_def simple_resolved_def GetHostname_def)

text \<open>
  C1. The documentation of the modes says that Debug writes logs to a collector running
  locally and Production to the production collector. \<^verbatim>\<open>NewOTLPLogger\<close> gives both
  modes the core it gives Local mode: the zap core writes to standard output, and neither
  an endpoint nor the configured port enters the logger.
\<close>

theorem NewOTLPLogger_collector_modes_write_stdout:
  "NewOTLPLogger (c\<lparr>Mode := Debug\<rparr>)
     = Inr \<lparr>logger = \<lparr>out = os_Stdout, enab = DebugLevel\<rparr>, log_cfg = c\<lparr>Mode := Debug\<rparr>\<rparr>
   \<and> NewOTLPLogger (c\<lparr>Mode := Production\<rparr>)
     = Inr \<lparr>logger = \<lparr>out = os_Stdout, enab = InfoLevel\<rparr>, log_cfg = c\<lparr>Mode := Production\<rparr>\<rparr>
   \<and> map_sum id logger (NewOTLPLogger (c\<lparr>Mode := Debug\<rparr>))
     = map_sum id logger (NewOTLPLogger (c\<lparr>Mode := Local\<rparr>))"
  by (simp add: NewOTLPLogger_def Mode_defs)

text \<open>
  The collector example (Debug mode): the client is constructed, an Info call is written
  on descriptor 1, while the metrics client of the same configuration has the local
  collector as its endpoint.
\<close>

lemma collector_demo_logs_to_stdout:
  "(case NewObservability quiet_sdk collector_cfg of
      Inl err \<Rightarrow> False
    | Inr obs \<Rightarrow>
        out (logger (obs_logger obs)) = os_Stdout
        \<and> written (zap_log (logger (obs_logger obs))
              (client_Info obs 0 ''order-service'' ''create-order'' ''Order 1 created'' [])
              World_init) 1
            = [client_Info obs 0 ''order-service'' ''create-order'' ''Order 1 created'' []]
        \<and> meter (obs_meter obs)
            = GlobalMeter (OTLP \<lparr>WithInsecure = True, WithEndpoint = ''localhost:4317'',
                                 WithTimeout = 10 * 1000000000\<rparr>) (2 * 1000000000))"
  by (simp add: NewObservability_def Ensure_def collector_cfg_def Config_zero_def quiet_sdk_def
      Mode_defs word_sle_eq NewOTLPLogger_def NewTracer_def NewOtelMeter_def zap_log_def
      Core_Enabled_def client_Info_def OTLPLogger_Info_def logWithLevel_def os_Stdout_def
      os_NewFile_def World_init_def newClient_def endpoint_def debugEndpoint_def)

text \<open>
  C3. The metrics endpoint by mode: Debug gives the local collector \<^verbatim>\<open>localhost:4317\<close>
  and Production the production host joined with the configured port, as the claim says;
  Development gives \<^verbatim>\<open>localhost:4317\<close> too, the very endpoint of Debug mode, where the
  documentation of the modes names a remote development collector.
\<close>

theorem endpoint_by_mode:
  "endpoint Debug port = ''localhost:4317''
   \<and> endpoint Production port = ''otel-collector.garden.internal:'' @ port
   \<and> endpoint Development port = ''localhost:4317''
   \<and> endpoint Development port = endpoint Debug port"
  by (simp add: endpoint_def Mode_defs debugEndpoint_def devEndpoint_def prodEndpoint_def)

section \<open>Shutdown\<close>

text \<open>
  C7. \<^verbatim>\<open>Close\<close> closes the logger first. When that fails, the error is returned as it
  is and the tracer's \<^verbatim>\<open>Close\<close> is not called: the only delegate closed is the
  logger. When it succeeds, the tracer is closed next and its result is the result.
\<close>

theorem Close_fail_fast:
  "(\<forall>msg. logger_Sync sdk = Some msg \<longrightarrow>
      ObservabilityClient_Close sdk obs w
        = (w\<lparr>events := events w @ [LoggerClose]\<rparr>, Some (SdkError msg)))
   \<and> (logger_Sync sdk = None \<longrightarrow>
      events (fst (ObservabilityClient_Close sdk obs w)) = events w @ [LoggerClose, TracerClose]
      \<and> ObservabilityClient_Close sdk obs w
          = OtelTracer_Close sdk (obs_tracer obs) (w\<lparr>events := events w @ [LoggerClose]\<rparr>))"
  by (auto simp: ObservabilityClient_Close_def OTLPLogger_Close_def OtelTracer_Close_def Let_def
           split: option.splits prod.splits)

theorem Close_fail_fast_witness:
  "ObservabilityClient_Close (quiet_sdk\<lparr>logger_Sync := Some ''sync /dev/stdout: invalid argument''\<rparr>)
       simple_client World_init
     = (World_init\<lparr>events := [LoggerClose]\<rparr>,
        Some (SdkError ''sync /dev/stdout: invalid argument''))
   \<and> ObservabilityClient_Close quiet_sdk simple_client World_init
     = (World_init\<lparr>events := [LoggerClose, TracerClose]\<rparr>, None)
   \<and> ObservabilityClient_Close (quiet_sdk\<lparr>tp_Shutdown := Some ''context canceled''\<rparr>)
       simple_client World_init
     = (World_init\<lparr>events := [LoggerClose, TracerClose]\<rparr>, Some (SdkError ''context canceled''))"
proof -
  have a: "logger_Sync (quiet_sdk\<lparr>logger_Sync := Some ''sync /dev/stdout: invalid argument''\<rparr>)
             = Some ''sync /dev/stdout: invalid argument''"
    by simp
  have b: "logger_Sync quiet_sdk = None"
          "logger_Sync (quiet_sdk\<lparr>tp_Shutdown := Some ''context canceled''\<rparr>) = None"
    by (simp_all add: quiet_sdk_def)
  have e: "events World_init = []"
    by (simp add: World_init_def)
  have t: "OtelTracer_Close s simple_client_tracer (World_init\<lparr>events := [LoggerClose]\<rparr>)
             = (World_init\<lparr>events := [LoggerClose, TracerClose]\<rparr>, map_option SdkError (tp_Shutdown s))"
    if "simple_client_tracer = obs_tracer simple_client" for s simple_client_tracer
    using that by (simp add: OtelTracer_Close_def simple_client_def)
  show ?thesis
    using Close_fail_fast
            [of "quiet_sdk\<lparr>logger_Sync := Some ''sync /dev/stdout: invalid argument''\<rparr>"
                simple_client World_init]
          Close_fail_fast [of quiet_sdk simple_client World_init]
          Close_fail_fast [of "quiet_sdk\<lparr>tp_Shutdown := Some ''context canceled''\<rparr>"
                simple_client World_init]
    unfolding a b e by (simp add: t quiet_sdk_def)
qed

section \<open>Noop mode\<close>

text \<open>
  Metrics in Noop mode: the meter is the no-op meter, and each of the three metric calls
  leaves the world as it is and returns no error.
\<close>

lemma NewObservability_Inr:
  assumes "NewObservability sdk c = Inr obs"
  shows "\<exists>c1. Ensure (os_Hostname sdk) c = (c1, None)
              \<and> NewOTLPLogger c1 = Inr (obs_logger obs)
              \<and> NewTracer sdk c1 = Inr (obs_tracer obs)
              \<and> NewOtelMeter sdk c1 = Inr (obs_meter obs)"
  using assms
  by (auto simp: NewObservability_def split: prod.splits option.splits sum.splits)

lemma Ensure_ok_Mode:
  assumes "Ensure answer c = (c1, None)"
  shows "Mode c1 = Mode c"
proof -
  have "Mode (filled c\<lparr>hostname := h\<rparr>) = Mode c" for h
    by (simp add: filled_def)
  moreover from Ensure_ok_shape [OF assms] have "c1 = filled c\<lparr>hostname := hostname c1\<rparr>"
    by simp
  ultimately show ?thesis by metis
qed

lemma Noop_meter_is_silent:
  assumes "Mode c = Noop" and "NewObservability sdk c = Inr obs"
  shows "meter (obs_meter obs) = NoopMeter
         \<and> SystemMetricHistogram sdk' obs metricName x flds w = (w, None)
         \<and> SystemMetricCounter sdk' obs metricName y flds w = (w, None)
         \<and> SystemMetricGauge sdk' obs metricName y flds w = (w, None)"
proof -
  from NewObservability_Inr [OF assms(2)] obtain c1
    where e: "Ensure (os_Hostname sdk) c = (c1, None)"
      and m: "NewOtelMeter sdk c1 = Inr (obs_meter obs)"
    by blast
  have "Mode c1 = Noop"
    using Ensure_ok_Mode [OF e] assms(1) by simp
  then have "NewOtelMeter sdk c1 = Inr \<lparr>meter = NoopMeter, meter_cfg = Config_zero\<rparr>"
    by (simp add: NewOtelMeter_def)
  with m have "obs_meter obs = \<lparr>meter = NoopMeter, meter_cfg = Config_zero\<rparr>"
    by simp
  then have "meter (obs_meter obs) = NoopMeter"
    by simp
  then show ?thesis
    by (simp add: SystemMetricHistogram_def SystemMetricCounter_def SystemMetricGauge_def
        DefaultHistogram_def DefaultCounter_def DefaultGauge_def)
qed

text \<open>
  C8. The documentation says that Noop mode discards the logs. The logger of Noop mode
  writes to \<^verbatim>\<open>os.NewFile(0, os.DevNull)\<close>: a file that carries the name of the null
  device and the descriptor 0, the descriptor of standard input, at the debug level. So a
  log call of a client constructed in Noop mode issues a write on descriptor 0; whatever
  is open there receives the record.
\<close>

theorem Noop_logger_writes_descriptor_0:
  "NewOTLPLogger (c\<lparr>Mode := Noop\<rparr>)
     = Inr \<lparr>logger = \<lparr>out = \<lparr>fd = 0, fname = ''/dev/null''\<rparr>, enab = DebugLevel\<rparr>,
            log_cfg = c\<lparr>Mode := Noop\<rparr>\<rparr>
   \<and> fd \<lparr>fd = 0, fname = ''/dev/null''\<rparr> = fd os_Stdin
   \<and> (case NewObservability quiet_sdk (simple_cfg\<lparr>Mode := Noop\<rparr>) of
         Inl err \<Rightarrow> False
       | Inr obs \<Rightarrow>
           written (zap_log (logger (obs_logger obs))
                      (client_Info obs 0 ''comp'' ''op'' ''hello'' []) World_init) 0
             = [client_Info obs 0 ''comp'' ''op'' ''hello'' []]
           \<and> zap_log (logger (obs_logger obs))
                      (client_Info obs 0 ''comp'' ''op'' ''hello'' []) World_init \<noteq> World_init)"
  by (simp add: NewObservability_def Ensure_def simple_cfg_def Config_zero_def quiet_sdk_def
      Mode_defs word_sle_eq NewOTLPLogger_def NewTracer_def NewOtelMeter_def zap_log_def
      Core_Enabled_def client_Info_def OTLPLogger_Info_def logWithLevel_def os_Stdin_def
      os_NewFile_def os_DevNull_def World_init_def fun_eq_iff)

section \<open>Construction\<close>

text \<open>
  The panic of the metrics constructor is out of reach of \<^verbatim>\<open>NewObservability\<close>: a
  successful \<^verbatim>\<open>Ensure\<close> leaves a positive flush interval.
\<close>

lemma Ensure_ok_FlushInterval:
  assumes "Ensure answer c = (c1, None)"
  shows "\<not> FlushInterval c1 \<le>s 0"
proof -
  have "\<not> FlushInterval (filled c\<lparr>hostname := h\<rparr>) \<le>s 0" for h
    by (simp add: filled_def word_sle_eq)
  moreover from Ensure_ok_shape [OF assms] have "c1 = filled c\<lparr>hostname := hostname c1\<rparr>"
    by simp
  ultimately show ?thesis by metis
qed

lemma Ensure_error_no_panic:
  assumes "Ensure answer c = (c1, Some err)"
  shows "err \<noteq> Panicked msg"
proof (cases "Name (Service c) = [] \<or> Version (Service c) = []")
  case True
  from Ensure_invalid(1) [OF True, of answer] assms show ?thesis by simp
next
  case False
  then have n: "Name (Service c) \<noteq> []" "Version (Service c) \<noteq> []" by simp_all
  show ?thesis
  proof (cases "Mode c = Noop \<or> Mode c = Local \<or> Mode c = Debug \<or> Mode c = Development
                  \<or> Mode c = Production")
    case True
    from Ensure_valid [OF n True, of answer] assms show ?thesis
      by (cases answer) auto
  next
    case False
    then have "Mode c \<noteq> Noop \<and> Mode c \<noteq> Local \<and> Mode c \<noteq> Debug \<and> Mode c \<noteq> Development
                 \<and> Mode c \<noteq> Production"
      by blast
    from Ensure_invalid(2) [OF n this, of answer] assms show ?thesis by simp
  qed
qed

lemma NewOtelMeter_no_panic:
  assumes "\<not> FlushInterval c \<le>s 0"
  shows "NewOtelMeter sdk c \<noteq> Inl (Panicked msg)"
  using assms
  by (simp add: NewOtelMeter_def split: option.splits sum.splits)

lemma NewObservability_no_panic: "NewObservability sdk c \<noteq> Inl (Panicked msg)"
proof (cases "Ensure (os_Hostname sdk) c")
  case (Pair c1 r)
  show ?thesis
  proof (cases r)
    case None
    with Pair have ok: "Ensure (os_Hostname sdk) c = (c1, None)" by simp
    have l: "NewOTLPLogger c1 \<noteq> Inl (Panicked msg)"
      by (simp add: NewOTLPLogger_def Let_def)
    have t: "NewTracer sdk c1 \<noteq> Inl (Panicked msg)"
      by (simp add: NewTracer_def split: option.splits)
    note m = NewOtelMeter_no_panic [OF Ensure_ok_FlushInterval [OF ok], of sdk msg]
    show ?thesis
      using l t m unfolding NewObservability_def ok
      by (auto split: sum.splits)
  next
    case (Some err)
    with Pair have "Ensure (os_Hostname sdk) c = (c1, Some err)" by simp
    from Ensure_error_no_panic [OF this, of msg] this show ?thesis
      by (simp add: NewObservability_def)
  qed
qed

end
